theory Spec2Isabelle
  imports Main "HOL-Library.Monad_Syntax" "HOL-Library.Word"
begin

section \<open>The ordered container \<open>std::map<K, V>\<close>\<close>

text \<open>
  The class \<open>interval_map<K, V>\<close> of \<open>src/main.cc\<close> has one field, \<open>m_map\<close>, a
  \<open>std::map<K, V>\<close>. The container is modelled by the list of its entries in iteration
  order, which for \<open>std::map\<close> is ascending key order without duplicate keys.
  \<open>K\<close> is any linearly ordered type with a least element (the value of
  \<open>std::numeric_limits<K>::lowest()\<close>, written \<open>bot\<close>); \<open>V\<close> is any type, compared
  with HOL equality.

  An iterator of a \<open>std::map\<close> designates a node and stays valid while other nodes are
  inserted or erased. A node is identified by its key, so an iterator is \<open>Some k\<close> (the
  node with key \<open>k\<close>) or \<open>None\<close> (the past-the-end iterator \<open>m_map.end()\<close>).
  Every operation with undefined behaviour in C++ (dereferencing or incrementing
  \<open>end()\<close>, decrementing \<open>begin()\<close>, using an iterator whose node was erased) returns
  \<open>None\<close> in the option monad.
\<close>

type_synonym ('k, 'v) std_map = "('k \<times> 'v) list"
type_synonym 'k iterator = "'k option"

definition keys :: "('k, 'v) std_map \<Rightarrow> 'k list" where
  "keys m = map fst m"

definition map_end :: "'k iterator" where
  "map_end = None"

definition map_begin :: "('k, 'v) std_map \<Rightarrow> 'k iterator" where
  "map_begin m = (case m of [] \<Rightarrow> map_end | (a, _) # _ \<Rightarrow> Some a)"

text \<open>\<open>m.lower_bound(k)\<close>: the first entry whose key is not less than \<open>k\<close>.\<close>

definition lower_bound :: "('k::linorder, 'v) std_map \<Rightarrow> 'k \<Rightarrow> 'k iterator" where
  "lower_bound m k = List.find (\<lambda>a. \<not> a < k) (keys m)"

text \<open>\<open>m.upper_bound(k)\<close>: the first entry whose key is greater than \<open>k\<close>.\<close>

definition upper_bound :: "('k::linorder, 'v) std_map \<Rightarrow> 'k \<Rightarrow> 'k iterator" where
  "upper_bound m k = List.find (\<lambda>a. k < a) (keys m)"

text \<open>\<open>it->first\<close> and \<open>it->second\<close>.\<close>

definition iter_first :: "('k, 'v) std_map \<Rightarrow> 'k iterator \<Rightarrow> 'k option" where
  "iter_first m it =
     (case it of None \<Rightarrow> None
      | Some k \<Rightarrow> if k \<in> set (keys m) then Some k else None)"

definition iter_second :: "('k, 'v) std_map \<Rightarrow> 'k iterator \<Rightarrow> 'v option" where
  "iter_second m it = (case it of None \<Rightarrow> None | Some k \<Rightarrow> map_of m k)"

text \<open>\<open>it->second = v\<close>: the value of the node is overwritten in place.\<close>

definition iter_set_second ::
  "('k, 'v) std_map \<Rightarrow> 'k iterator \<Rightarrow> 'v \<Rightarrow> ('k, 'v) std_map option" where
  "iter_set_second m it v =
     (case it of None \<Rightarrow> None
      | Some k \<Rightarrow>
          if k \<in> set (keys m)
          then Some (map (\<lambda>(a, w). if a = k then (a, v) else (a, w)) m)
          else None)"

text \<open>\<open>++it\<close>: the node with the next greater key, or \<open>end()\<close> after the last node.\<close>

definition iter_incr :: "('k::linorder, 'v) std_map \<Rightarrow> 'k iterator \<Rightarrow> 'k iterator option" where
  "iter_incr m it =
     (case it of None \<Rightarrow> None
      | Some k \<Rightarrow>
          if k \<in> set (keys m) then Some (List.find (\<lambda>a. k < a) (keys m)) else None)"

text \<open>
  \<open>--it\<close>: the node with the next smaller key; from \<open>end()\<close> the last node. Undefined
  when there is no such node, that is when \<open>it\<close> is \<open>begin()\<close>.
\<close>

definition nodes_before :: "('k::linorder, 'v) std_map \<Rightarrow> 'k iterator \<Rightarrow> 'k list" where
  "nodes_before m it =
     (case it of None \<Rightarrow> keys m | Some k \<Rightarrow> filter (\<lambda>a. a < k) (keys m))"

definition iter_decr :: "('k::linorder, 'v) std_map \<Rightarrow> 'k iterator \<Rightarrow> 'k iterator option" where
  "iter_decr m it =
     (if it \<noteq> None \<and> iter_first m it = None then None
      else if nodes_before m it = [] then None
      else Some (Some (last (nodes_before m it))))"

text \<open>
  \<open>m.insert(hint, std::make_pair(k, v))\<close>: inserts the pair at its place in key order
  unless an entry with key \<open>k\<close> exists, in which case the map is unchanged; either way
  the returned iterator designates the entry with key \<open>k\<close>. The hint only affects the
  running time.
\<close>

fun insert_pair :: "'k::linorder \<Rightarrow> 'v \<Rightarrow> ('k, 'v) std_map \<Rightarrow> ('k, 'v) std_map" where
  "insert_pair k v [] = [(k, v)]"
| "insert_pair k v ((a, w) # xs) =
     (if k < a then (k, v) # (a, w) # xs
      else if a < k then (a, w) # insert_pair k v xs
      else (a, w) # xs)"

definition map_insert ::
  "('k::linorder, 'v) std_map \<Rightarrow> 'k iterator \<Rightarrow> 'k \<times> 'v \<Rightarrow> ('k, 'v) std_map \<times> 'k iterator" where
  "map_insert m hint p = (insert_pair (fst p) (snd p) m, Some (fst p))"

text \<open>\<open>m.erase(it)\<close>: removes the node \<open>it\<close> designates.\<close>

definition map_erase :: "('k, 'v) std_map \<Rightarrow> 'k iterator \<Rightarrow> ('k, 'v) std_map option" where
  "map_erase m it =
     (case it of None \<Rightarrow> None
      | Some k \<Rightarrow>
          if k \<in> set (keys m) then Some (filter (\<lambda>(a, _). a \<noteq> k) m) else None)"

text \<open>
  \<open>m.erase(first, last)\<close>: removes the nodes of the range \<open>[first, last)\<close>; undefined
  unless \<open>last\<close> is reachable from \<open>first\<close>.
\<close>

definition map_erase_range ::
  "('k::linorder, 'v) std_map \<Rightarrow> 'k iterator \<Rightarrow> 'k iterator \<Rightarrow> ('k, 'v) std_map option" where
  "map_erase_range m first_it last_it =
     (case first_it of
        None \<Rightarrow> if last_it = None then Some m else None
      | Some f \<Rightarrow>
          if f \<notin> set (keys m) then None
          else (case last_it of
                  None \<Rightarrow> Some (filter (\<lambda>(a, _). a < f) m)
                | Some l \<Rightarrow>
                    if l \<notin> set (keys m) \<or> l < f then None
                    else Some (filter (\<lambda>(a, _). \<not> (f \<le> a \<and> a < l)) m)))"

section \<open>The class \<open>interval_map\<close>\<close>

text \<open>
  The constructor (lines 15--18) inserts \<open>(lowest, val)\<close> into the empty map.
\<close>

definition interval_map :: "'v \<Rightarrow> ('k::{linorder, order_bot}, 'v) std_map" where
  "interval_map val =
     (let m_map = ([] :: ('k, 'v) std_map) in fst (map_insert m_map (map_begin m_map) (bot, val)))"

text \<open>
  \<open>assign\<close>, lines 31--57: the part that deals with \<open>keyBegin\<close>. It returns the map
  and the locals \<open>begin\<close>, \<open>eraseBegin\<close>, \<open>endValue\<close> and \<open>erase\<close> as they are at
  line 58.
\<close>

definition assign_begin ::
  "('k::linorder, 'v) std_map \<Rightarrow> 'k \<Rightarrow> 'v \<Rightarrow>
   (('k, 'v) std_map \<times> 'k iterator \<times> 'k iterator \<times> 'v \<times> bool) option" where
  "assign_begin m keyBegin val =
     (let erase = True;
          begin = lower_bound m keyBegin;
          eraseBegin = begin
      in if begin \<noteq> map_end \<and> iter_first m begin = Some keyBegin then
           do {
             endValue \<leftarrow> iter_second m begin;
             m' \<leftarrow> iter_set_second m begin val;
             eraseBegin' \<leftarrow> iter_incr m' eraseBegin;
             Some (m', begin, eraseBegin', endValue,
                   if eraseBegin' = map_end then False else erase)
           }
         else
           do {
             prev \<leftarrow> iter_decr m begin;
             endValue \<leftarrow> iter_second m prev;
             if endValue \<noteq> val then
               do {
                 let (m', it) = map_insert m begin (keyBegin, val);
                 it' \<leftarrow> iter_incr m' it;
                 Some (m', it, it', endValue, erase)
               }
             else Some (m, begin, eraseBegin, endValue, erase)
           })"

text \<open>
  \<open>assign\<close>, lines 59--77: the part that deals with \<open>keyEnd\<close>. It returns the map and
  the locals \<open>eraseEnd\<close> and \<open>erase\<close> as they are at line 78.
\<close>

definition assign_end ::
  "('k::linorder, 'v) std_map \<Rightarrow> 'k \<Rightarrow> 'v \<Rightarrow> 'k iterator \<Rightarrow> 'k iterator \<Rightarrow> 'v \<Rightarrow> bool \<Rightarrow>
   (('k, 'v) std_map \<times> 'k iterator \<times> bool) option" where
  "assign_end m keyEnd val begin eraseBegin endValue erase =
     (let end = lower_bound m keyEnd;
          eraseEnd = end;
          erase' = (if eraseEnd = eraseBegin then False else erase)
      in if end = map_end \<or> iter_first m end \<noteq> Some keyEnd then
           do {
             prev \<leftarrow> iter_decr m end;
             endValue' \<leftarrow> (if prev \<noteq> begin then iter_second m prev else Some endValue);
             if endValue' \<noteq> val then
               do {
                 let (m', it) = map_insert m end (keyEnd, endValue');
                 it' \<leftarrow> iter_incr m' it;
                 if it' \<noteq> map_end then
                   do {
                     w \<leftarrow> iter_second m' it';
                     if w = endValue' then
                       do { m'' \<leftarrow> map_erase m' it'; Some (m'', it, erase') }
                     else Some (m', it, erase')
                   }
                 else Some (m', it, erase')
               }
             else Some (m, eraseEnd, erase')
           }
         else Some (m, eraseEnd, erase'))"

text \<open>\<open>assign\<close>, lines 78--79: the interior entries are erased.\<close>

definition assign_erase ::
  "('k::linorder, 'v) std_map \<Rightarrow> bool \<Rightarrow> 'k iterator \<Rightarrow> 'k iterator \<Rightarrow> ('k, 'v) std_map option" where
  "assign_erase m erase eraseBegin eraseEnd =
     (if erase \<and> eraseBegin \<noteq> map_end \<and> eraseEnd \<noteq> map_end then
        do {
          f \<leftarrow> iter_first m eraseBegin;
          l \<leftarrow> iter_first m eraseEnd;
          if f < l then map_erase_range m eraseBegin eraseEnd else Some m
        }
      else Some m)"

text \<open>\<open>assign\<close>, lines 27--80.\<close>

definition assign ::
  "('k::linorder, 'v) std_map \<Rightarrow> 'k \<Rightarrow> 'k \<Rightarrow> 'v \<Rightarrow> ('k, 'v) std_map option" where
  "assign m keyBegin keyEnd val =
     (if \<not> keyBegin < keyEnd then Some m
      else
        do {
          (m1, begin, eraseBegin, endValue, erase) \<leftarrow> assign_begin m keyBegin val;
          (m2, eraseEnd, erase') \<leftarrow> assign_end m1 keyEnd val begin eraseBegin endValue erase;
          assign_erase m2 erase' eraseBegin eraseEnd
        })"

text \<open>\<open>operator[]\<close>, lines 82--85: \<open>(--m_map.upper_bound(key))->second\<close>.\<close>

definition lookup :: "('k::linorder, 'v) std_map \<Rightarrow> 'k \<Rightarrow> 'v option" where
  "lookup m key = do { it \<leftarrow> iter_decr m (upper_bound m key); iter_second m it }"

text \<open>
  A sequence of \<open>assign\<close> calls, each given as \<open>(keyBegin, keyEnd, val)\<close>, applied in
  order to a map; the result is \<open>None\<close> as soon as one call has undefined behaviour.
\<close>

fun assign_all ::
  "('k::linorder, 'v) std_map \<Rightarrow> ('k \<times> 'k \<times> 'v) list \<Rightarrow> ('k, 'v) std_map option" where
  "assign_all m [] = Some m"
| "assign_all m ((b, e, v) # cs) = (case assign m b e v of None \<Rightarrow> None | Some m' \<Rightarrow> assign_all m' cs)"

section \<open>Notions of the specification\<close>

text \<open>
  The ordering invariant of \<open>std::map\<close> itself: the entries are in strictly ascending
  key order.
\<close>

definition ordered :: "('k::linorder, 'v) std_map \<Rightarrow> bool" where
  "ordered m \<longleftrightarrow> sorted_wrt (<) (keys m)"

text \<open>Invariant I1: the collection is not empty and has an entry at the lowest key.\<close>

definition I1 :: "('k::{linorder, order_bot}, 'v) std_map \<Rightarrow> bool" where
  "I1 m \<longleftrightarrow> m \<noteq> [] \<and> bot \<in> set (keys m)"

text \<open>Invariant I2: no two consecutive entries hold equal values.\<close>

fun I2 :: "('k, 'v) std_map \<Rightarrow> bool" where
  "I2 [] = True"
| "I2 [x] = True"
| "I2 (x # y # zs) = (snd x \<noteq> snd y \<and> I2 (y # zs))"

text \<open>
  The states an \<open>interval_map\<close> object can be in: an ordered map with an entry at the
  lowest key.
\<close>

definition state :: "('k::{linorder, order_bot}, 'v) std_map \<Rightarrow> bool" where
  "state m \<longleftrightarrow> ordered m \<and> bot \<in> set (keys m)"

text \<open>
  The reference array of the test driver (lines 94 and 108--109): \<open>A[i] = value\<close> for
  every \<open>i\<close> with \<open>begin \<le> i < end\<close>.
\<close>

definition mirror :: "('k::linorder \<Rightarrow> 'v) \<Rightarrow> 'k \<times> 'k \<times> 'v \<Rightarrow> ('k \<Rightarrow> 'v)" where
  "mirror A c = (case c of (b, e, v) \<Rightarrow> (\<lambda>i. if b \<le> i \<and> i < e then v else A i))"

fun mirror_all :: "('k::linorder \<Rightarrow> 'v) \<Rightarrow> ('k \<times> 'k \<times> 'v) list \<Rightarrow> ('k \<Rightarrow> 'v)" where
  "mirror_all A [] = A"
| "mirror_all A (c # cs) = mirror_all (mirror A c) cs"

section \<open>Evaluation on concrete maps\<close>

lemmas std_map_defs =
  keys_def map_end_def map_begin_def lower_bound_def upper_bound_def iter_first_def
  iter_second_def iter_set_second_def iter_incr_def nodes_before_def iter_decr_def
  map_insert_def map_erase_def map_erase_range_def

lemmas interval_map_defs =
  assign_def assign_begin_def assign_end_def assign_erase_def lookup_def interval_map_def

section \<open>An empty range\<close>

text \<open>
  Claim C6. For every map and all \<open>keyBegin\<close>, \<open>keyEnd\<close>, \<open>val\<close> with
  \<open>\<not> keyBegin < keyEnd\<close>, \<open>assign\<close> returns normally and the collection after the
  call is the collection before it, entry for entry and in the same order; every later
  \<open>lookup\<close> is therefore evaluated on the same collection as before.
\<close>

theorem assign_empty_range:
  "\<not> keyBegin < keyEnd \<Longrightarrow> assign m keyBegin keyEnd val = Some m"
  by (simp add: assign_def)

theorem assign_empty_range_witness:
  "assign [(0::32 word, 0::32 word), (3, 5), (6, 0)] 6 3 7 = Some [(0, 0), (3, 5), (6, 0)] \<and>
   assign [(0::32 word, 0::32 word), (3, 5), (6, 0)] 4 4 7 = Some [(0, 0), (3, 5), (6, 0)]"
  using assign_empty_range [of "6::32 word" 3 "[(0::32 word, 0::32 word), (3, 5), (6, 0)]" 7]
    assign_empty_range [of "4::32 word" 4 "[(0::32 word, 0::32 word), (3, 5), (6, 0)]" 7]
  by simp

section \<open>Where \<open>assign\<close> departs from its contract\<close>

text \<open>
  The comment above \<open>assign\<close> (lines 20--26) asks that the values in
  \<open>[keyBegin, keyEnd)\<close> be overwritten and the values outside be left alone. Line 68,
  \<open>if (prev != begin)\<close>, takes \<open>begin\<close> to be the entry at \<open>keyBegin\<close>; when line 49
  found the new entry redundant, \<open>begin\<close> is still the first entry after \<open>keyBegin\<close>, and
  if that is also the last entry before \<open>keyEnd\<close> its value is not read. The theorems
  of this section run the code on \<open>interval_map<unsigned int, unsigned int>\<close>, the
  instance of the test driver.
\<close>

text \<open>
  Claim C1 at a failing input. After the constructor with default 0 and the calls
  \<open>assign(3,6,5)\<close>, \<open>assign(2,4,0)\<close> the map is \<open>{0:0, 6:0}\<close> and \<open>lookup(4)\<close> is 0,
  while the reference array has \<open>A[4] = 5\<close>.
\<close>

theorem lookup_differs_from_reference:
  "assign_all (interval_map (0::32 word)) [(3::32 word, 6, 5), (2, 4, 0)] = Some [(0, 0), (6, 0)] \<and>
   lookup [(0::32 word, 0::32 word), (6, 0)] 4 = Some 0 \<and>
   mirror_all (\<lambda>i. 0::32 word) [(3::32 word, 6, 5), (2, 4, 0)] 4 = 5"
  by (simp add: std_map_defs interval_map_defs mirror_def bot_word_eq Let_def)

text \<open>
  Claim C2 at a failing input. In the state \<open>{0:0, 3:5, 6:0}\<close>, which
  \<open>assign(3,6,5)\<close> produces from the constructor's, the call \<open>assign(2,4,0)\<close> changes
  \<open>lookup(4)\<close> from 5 to 0, although 4 is not less than \<open>keyEnd\<close>.
\<close>

theorem assign_changes_value_outside:
  "assign_all (interval_map (0::32 word)) [(3::32 word, 6, 5)] = Some [(0, 0), (3, 5), (6, 0)] \<and>
   assign [(0::32 word, 0::32 word), (3, 5), (6, 0)] 2 4 0 = Some [(0, 0), (6, 0)] \<and>
   \<not> (4::32 word) < 4 \<and>
   lookup [(0::32 word, 0::32 word), (3, 5), (6, 0)] 4 = Some 5 \<and>
   lookup [(0::32 word, 0::32 word), (6, 0)] 4 = Some 0"
  by (simp add: std_map_defs interval_map_defs bot_word_eq Let_def)

text \<open>
  Claim C3 at a failing input. After the constructor with default 0 and the calls
  \<open>assign(0,5,1)\<close>, \<open>assign(5,8,1)\<close> the map is \<open>{0:1, 5:1, 8:0}\<close>: the entries at 0
  and 5 are consecutive and hold the same value. The branch of lines 36--43 overwrites
  the value at an existing \<open>keyBegin\<close> without the comparison with the preceding entry
  that the other branch makes at line 49.
\<close>

theorem consecutive_equal_values:
  "assign_all (interval_map (0::32 word)) [(0::32 word, 5, 1), (5, 8, 1)]
     = Some [(0, 1), (5, 1), (8, 0)] \<and>
   \<not> I2 [(0::32 word, 1::32 word), (5, 1), (8, 0)]"
  by (simp add: std_map_defs interval_map_defs bot_word_eq Let_def)

text \<open>
  Claim C4 at its second step. After the constructor with default 0 and \<open>assign(2,5,7)\<close>
  the map is \<open>{0:0, 2:7, 5:0}\<close> and the four lookups of the scenario hold. The call
  \<open>assign(4,8,7)\<close> then leaves the map as it is: \<open>lookup(5)\<close> and \<open>lookup(7)\<close> are 0,
  not 7, and the entry at key 5 stays. The call \<open>assign(0,10,0)\<close> again changes nothing,
  so three entries remain.
\<close>

theorem scenario_run:
  "assign_all (interval_map (0::32 word)) [(2::32 word, 5, 7)] = Some [(0, 0), (2, 7), (5, 0)] \<and>
   map (lookup [(0::32 word, 0::32 word), (2, 7), (5, 0)]) [1, 2, 4, 5]
     = [Some 0, Some 7, Some 7, Some 0] \<and>
   assign_all (interval_map (0::32 word)) [(2::32 word, 5, 7), (4, 8, 7)]
     = Some [(0, 0), (2, 7), (5, 0)] \<and>
   map (lookup [(0::32 word, 0::32 word), (2, 7), (5, 0)]) [4, 5, 7, 8]
     = [Some 7, Some 0, Some 0, Some 0] \<and>
   assign_all (interval_map (0::32 word)) [(2::32 word, 5, 7), (4, 8, 7), (0, 10, 0)]
     = Some [(0, 0), (2, 7), (5, 0)]"
  by (simp add: std_map_defs interval_map_defs bot_word_eq Let_def)

end
